theory Spec2Isabelle
  imports Complex_Main
begin

section \<open>Numbers\<close>

text \<open>
  The program computes with JavaScript numbers, which are IEEE doubles.  The geometry is
  modelled over the real numbers with exact operations: the coordinates of a mesh and of
  a plane and a tolerance are finite reals, and the model agrees with the program wherever
  no intermediate result is rounded, overflows or underflows.  Rounding, overflow,
  underflow and the sign of zero are not represented.  The statements about the geometry
  are therefore phrased through the tests that the program itself evaluates (the
  comparison of a computed distance with the tolerance, the sign of a computed product
  \<open>di * dj\<close>, the outcome of the \<open>Plane\<close> constructor) and relate the values of the
  program's own expressions to each other.  No statement asserts a fact that only exact
  arithmetic has, such as a normalized vector of length exactly 1 or a computed point
  exactly on a plane.

  Where the program takes a scalar from its caller and only tests, compares or clamps it,
  the value is a \<open>number\<close>, which is a real or one of the three non-finite values: the
  components of the probe pose (\<open>isNaN\<close>, \<open>isFinite\<close>), the size limit of the cache
  (\<open>>\<close>) and the numeric options of the visualization (\<open>Math.max\<close>, \<open>Math.min\<close>).
  These operations are exact on numbers.
\<close>

datatype number = Finite real | PosInfinity | NegInfinity | NaN

fun isNaN :: "number \<Rightarrow> bool" where
  "isNaN NaN = True"
| "isNaN _ = False"

fun isFinite :: "number \<Rightarrow> bool" where
  "isFinite (Finite r) = True"
| "isFinite _ = False"

text \<open>The real value of a finite number; it is only read after \<open>isFinite\<close> has held.\<close>

fun realOf :: "number \<Rightarrow> real" where
  "realOf (Finite r) = r"
| "realOf _ = 0"

text \<open>
  The comparisons \<open><\<close> and \<open><=\<close> of the language: false when an operand is NaN.
\<close>

fun number_less :: "number \<Rightarrow> number \<Rightarrow> bool" where
  "number_less NaN _ = False"
| "number_less _ NaN = False"
| "number_less (Finite a) (Finite b) = (a < b)"
| "number_less _ NegInfinity = False"
| "number_less NegInfinity _ = True"
| "number_less PosInfinity _ = False"
| "number_less _ PosInfinity = True"




section \<open>Vector3\<close>

record 'n Vector3 =
  x :: 'n
  y :: 'n
  z :: 'n

definition Vector3_zero :: "real Vector3" where
  "Vector3_zero = \<lparr>x = 0, y = 0, z = 0\<rparr>"

definition Vector3_length :: "real Vector3 \<Rightarrow> real" where
  "Vector3_length v = sqrt (x v * x v + y v * y v + z v * z v)"

definition Vector3_normalize :: "real Vector3 \<Rightarrow> real Vector3" where
  "Vector3_normalize v =
     (let len = Vector3_length v
      in if len = 0 then \<lparr>x = 0, y = 0, z = 0\<rparr>
         else \<lparr>x = x v / len, y = y v / len, z = z v / len\<rparr>)"

definition Vector3_dot :: "real Vector3 \<Rightarrow> real Vector3 \<Rightarrow> real" where
  "Vector3_dot u v = x u * x v + y u * y v + z u * z v"

definition Vector3_add :: "real Vector3 \<Rightarrow> real Vector3 \<Rightarrow> real Vector3" where
  "Vector3_add u v = \<lparr>x = x u + x v, y = y u + y v, z = z u + z v\<rparr>"

definition Vector3_subtract :: "real Vector3 \<Rightarrow> real Vector3 \<Rightarrow> real Vector3" where
  "Vector3_subtract u v = \<lparr>x = x u - x v, y = y u - y v, z = z u - z v\<rparr>"

definition Vector3_multiplyScalar :: "real Vector3 \<Rightarrow> real \<Rightarrow> real Vector3" where
  "Vector3_multiplyScalar v scalar = \<lparr>x = x v * scalar, y = y v * scalar, z = z v * scalar\<rparr>"

definition Vector3_clone :: "real Vector3 \<Rightarrow> real Vector3" where
  "Vector3_clone v = \<lparr>x = x v, y = y v, z = z v\<rparr>"

section \<open>Plane\<close>

text \<open>
  The constructor throws \<open>Error\<close> with a fixed message (in English: the normal vector
  must not be the zero vector); the thrown value is the constructor \<open>ZeroNormal\<close>.
  The specification calls this error \<open>InvalidGeometry\<close>.
  The field \<open>constant\<close> of the class is \<open>constant_term\<close> here.
\<close>

datatype error = ZeroNormal

record Plane =
  normal :: "real Vector3"
  constant_term :: real

definition Plane_new :: "real Vector3 \<Rightarrow> real \<Rightarrow> error + Plane" where
  "Plane_new n c =
     (if Vector3_length n = 0 then Inl ZeroNormal
      else Inr \<lparr>normal = Vector3_normalize n, constant_term = c\<rparr>)"

definition fromPointAndNormal :: "real Vector3 \<Rightarrow> real Vector3 \<Rightarrow> error + Plane" where
  "fromPointAndNormal point n =
     (let normalizedNormal = Vector3_normalize n;
          c = - Vector3_dot normalizedNormal point
      in Plane_new normalizedNormal c)"

definition distanceToPoint :: "Plane \<Rightarrow> real Vector3 \<Rightarrow> real" where
  "distanceToPoint p point = Vector3_dot (normal p) point + constant_term p"

text \<open>The default tolerance \<open>1e-10\<close> of \<open>containsPoint\<close> and of the intersection.\<close>

definition defaultTolerance :: real where
  "defaultTolerance = 1 / 10 ^ 10"

definition containsPoint :: "Plane \<Rightarrow> real Vector3 \<Rightarrow> real \<Rightarrow> bool" where
  "containsPoint p point tolerance \<longleftrightarrow> \<bar>distanceToPoint p point\<bar> < tolerance"

section \<open>TriangleIntersection\<close>

text \<open>
  The source tests each edge with the same three lines: a sign change \<open>di * dj < 0\<close>,
  the parameter \<open>t = di / (di - dj)\<close> and the point \<open>vi + (vj - vi) * t\<close>, pushed on the
  result.  \<open>edgeCrossing\<close> is that block; it yields the pushed points.
\<close>

definition edgeCrossing :: "real \<Rightarrow> real \<Rightarrow> real Vector3 \<Rightarrow> real Vector3 \<Rightarrow> real Vector3 list" where
  "edgeCrossing di dj vi vj =
     (if di * dj < 0
      then (let t = di / (di - dj)
            in [Vector3_add vi (Vector3_multiplyScalar (Vector3_subtract vj vi) t)])
      else [])"

text \<open>The block \<open>if (onPlane0) push v0; if (onPlane1) push v1; if (onPlane2) push v2\<close>.\<close>

definition onPlaneVertices ::
  "bool \<Rightarrow> bool \<Rightarrow> bool \<Rightarrow> real Vector3 \<Rightarrow> real Vector3 \<Rightarrow> real Vector3 \<Rightarrow> real Vector3 list" where
  "onPlaneVertices onPlane0 onPlane1 onPlane2 v0 v1 v2 =
     (if onPlane0 then [Vector3_clone v0] else []) @
     (if onPlane1 then [Vector3_clone v1] else []) @
     (if onPlane2 then [Vector3_clone v2] else [])"

definition planeTriangleIntersection ::
  "Plane \<Rightarrow> real Vector3 \<times> real Vector3 \<times> real Vector3 \<Rightarrow> real \<Rightarrow> real Vector3 list" where
  "planeTriangleIntersection plane triangle tolerance =
     (case triangle of (v0, v1, v2) \<Rightarrow>
      let d0 = distanceToPoint plane v0;
          d1 = distanceToPoint plane v1;
          d2 = distanceToPoint plane v2;
          onPlane0 = (\<bar>d0\<bar> < tolerance);
          onPlane1 = (\<bar>d1\<bar> < tolerance);
          onPlane2 = (\<bar>d2\<bar> < tolerance);
          onPlaneCount = length (filter (\<lambda>b. b) [onPlane0, onPlane1, onPlane2])
      in if onPlaneCount = 3 then [Vector3_clone v0, Vector3_clone v1, Vector3_clone v2]
         else if onPlaneCount = 2 then onPlaneVertices onPlane0 onPlane1 onPlane2 v0 v1 v2
         else if onPlaneCount = 1 then
           onPlaneVertices onPlane0 onPlane1 onPlane2 v0 v1 v2 @
           edgeCrossing d0 d1 v0 v1 @ edgeCrossing d1 d2 v1 v2 @ edgeCrossing d2 d0 v2 v0
         else
           (let intersections =
                  edgeCrossing d0 d1 v0 v1 @ edgeCrossing d1 d2 v1 v2 @ edgeCrossing d2 d0 v2 v0
            in if length intersections = 0 \<and> onPlaneCount > 0
               then intersections @ onPlaneVertices onPlane0 onPlane1 onPlane2 v0 v1 v2
               else intersections))"

section \<open>RealTimeUpdateService\<close>

text \<open>
  The messages of a result, in the order of the source: the pose is invalid, the heart
  model is empty, and the message of a caught \<open>Error\<close>.  Every value thrown in the model
  is an \<open>Error\<close>, so the fallback text of the handler for other values does not occur.
\<close>

datatype message = InvalidProbe | EmptyModel | ErrorMessage error

record IntersectionResult =
  lines :: "real Vector3 list list"
  isValid :: bool
  calculationTime :: real
  fromCache :: "bool option"
  error :: "message option"

record HeartModel =
  triangles :: "real Vector3 list list"

record RealTimeUpdateService =
  cache :: "string \<rightharpoonup> IntersectionResult"
  lastResult :: "IntersectionResult option"
  cacheHits :: nat
  cacheMisses :: nat
  totalCalculations :: nat

text \<open>A new service: the field initialisers of the class.\<close>

definition newService :: RealTimeUpdateService where
  "newService = \<lparr>cache = Map.empty, lastResult = None, cacheHits = 0, cacheMisses = 0,
     totalCalculations = 0\<rparr>"

definition isValidVector :: "number Vector3 \<Rightarrow> bool" where
  "isValidVector v \<longleftrightarrow>
     \<not> isNaN (x v) \<and> \<not> isNaN (y v) \<and> \<not> isNaN (z v) \<and>
     isFinite (x v) \<and> isFinite (y v) \<and> isFinite (z v)"

text \<open>The coordinates of a validated pose, as reals.\<close>

definition realVector :: "number Vector3 \<Rightarrow> real Vector3" where
  "realVector v = \<lparr>x = realOf (x v), y = realOf (y v), z = realOf (z v)\<rparr>"

subsection \<open>The cache key\<close>

text \<open>
  \<open>Number.prototype.toFixed\<close> and the decimal spelling of an array length are built into
  the language.  \<open>toFixed\<close> follows the language definition for a finite value below
  \<open>10^21\<close> in magnitude: the sign, then the integer \<open>n\<close> nearest to \<open>v * 10^f\<close> (the
  larger one on a tie), padded to \<open>f + 1\<close> digits and split by a point.  From \<open>10^21\<close>
  on the language switches to the exponent notation; the model keeps the digit expansion
  there.
\<close>

fun decimalDigits :: "nat \<Rightarrow> string" where
  "decimalDigits n =
     (if n < 10 then [char_of (48 + n)]
      else decimalDigits (n div 10) @ [char_of (48 + n mod 10)])"

declare decimalDigits.simps [simp del]

definition toFixed :: "real \<Rightarrow> nat \<Rightarrow> string" where
  "toFixed v f =
     (let s = (if v < 0 then ''-'' else []);
          n = nat \<lfloor>\<bar>v\<bar> * 10 ^ f + 1 / 2\<rfloor>;
          m = decimalDigits n;
          m = (if f \<noteq> 0 \<and> length m \<le> f
               then replicate (f + 1 - length m) (CHR ''0'') @ m else m);
          k = length m
      in if f \<noteq> 0 then s @ take (k - f) m @ ''.'' @ drop (k - f) m else s @ m)"

definition generateCacheKey :: "real Vector3 \<Rightarrow> real Vector3 \<Rightarrow> HeartModel \<Rightarrow> string" where
  "generateCacheKey probePosition probeDirection heartModel =
     (let precision = 4;
          positionKey = toFixed (x probePosition) precision @ '','' @
                        toFixed (y probePosition) precision @ '','' @
                        toFixed (z probePosition) precision;
          directionKey = toFixed (x probeDirection) precision @ '','' @
                         toFixed (y probeDirection) precision @ '','' @
                         toFixed (z probeDirection) precision;
          modelKey = decimalDigits (length (triangles heartModel))
      in positionKey @ ''|'' @ directionKey @ ''|'' @ modelKey)"

subsection \<open>The intersection of the service\<close>

definition calculateEdgeIntersection ::
  "Plane \<Rightarrow> real Vector3 \<Rightarrow> real Vector3 \<Rightarrow> real Vector3 option" where
  "calculateEdgeIntersection plane start end_v =
     (let d1 = distanceToPoint plane start;
          d2 = distanceToPoint plane end_v
      in if d1 * d2 > 0 then None
         else if \<bar>d1\<bar> < 1 / 10 ^ 10 then Some (Vector3_clone start)
         else if \<bar>d2\<bar> < 1 / 10 ^ 10 then Some (Vector3_clone end_v)
         else (let t = - d1 / (d2 - d1)
               in Some \<lparr>x = x start + t * (x end_v - x start),
                        y = y start + t * (y end_v - y start),
                        z = z start + t * (z end_v - z start)\<rparr>))"

text \<open>The loop over the three edges pushes every point that an edge yields.\<close>

fun edgePoints :: "Plane \<Rightarrow> (real Vector3 \<times> real Vector3) list \<Rightarrow> real Vector3 list" where
  "edgePoints plane [] = []"
| "edgePoints plane ((start, end_v) # edges) =
     (case calculateEdgeIntersection plane start end_v of
        Some intersection \<Rightarrow> intersection # edgePoints plane edges
      | None \<Rightarrow> edgePoints plane edges)"

definition calculateTriangleIntersection ::
  "Plane \<Rightarrow> real Vector3 list \<Rightarrow> real Vector3 list option" where
  "calculateTriangleIntersection plane triangle =
     (case triangle of
        [v0, v1, v2] \<Rightarrow>
          (let d0 = distanceToPoint plane v0;
               d1 = distanceToPoint plane v1;
               d2 = distanceToPoint plane v2;
               hasIntersection = (d0 * d1 < 0 \<or> d0 * d2 < 0 \<or> d1 * d2 < 0)
           in if \<not> hasIntersection then None
              else (let intersectionPoints = edgePoints plane [(v0, v1), (v1, v2), (v2, v0)]
                    in if length intersectionPoints = 2 then Some intersectionPoints
                       else None))
      | _ \<Rightarrow> None)"

definition optimizeTriangleOrder :: "real Vector3 list list \<Rightarrow> real Vector3 list list" where
  "optimizeTriangleOrder ts = ts"

fun collectLines :: "Plane \<Rightarrow> real Vector3 list list \<Rightarrow> real Vector3 list list" where
  "collectLines plane [] = []"
| "collectLines plane (triangle # trianglesToCheck) =
     (case calculateTriangleIntersection plane triangle of
        Some line \<Rightarrow>
          (if length line = 2 then line # collectLines plane trianglesToCheck
           else collectLines plane trianglesToCheck)
      | None \<Rightarrow> collectLines plane trianglesToCheck)"

definition calculateIntersectionLines :: "Plane \<Rightarrow> HeartModel \<Rightarrow> real Vector3 list list" where
  "calculateIntersectionLines plane heartModel =
     collectLines plane (optimizeTriangleOrder (triangles heartModel))"

subsection \<open>updateSection\<close>

text \<open>
  The clock is read at most twice in a call: on entry (\<open>startTime\<close>) and once more, either
  after the intersection or in the handler (\<open>endTime\<close>).  Both readings are parameters.
  \<open>updateSection_try\<close> is the body of the \<open>try\<close> block: it returns the service as the body
  leaves it, with the returned result or the thrown error.  \<open>updateSection\<close> adds the
  handler.
\<close>

definition updateSection_try ::
  "RealTimeUpdateService \<Rightarrow> real \<Rightarrow> real \<Rightarrow> number Vector3 \<Rightarrow> number Vector3 \<Rightarrow> HeartModel
     \<Rightarrow> RealTimeUpdateService \<times> (error + IntersectionResult)" where
  "updateSection_try s startTime endTime probePosition probeDirection heartModel =
     (if \<not> isValidVector probePosition \<or> \<not> isValidVector probeDirection
      then (s, Inr \<lparr>lines = [], isValid = False, calculationTime = 0, fromCache = None,
                     error = Some InvalidProbe\<rparr>)
      else if length (triangles heartModel) = 0
      then (s, Inr \<lparr>lines = [], isValid = False, calculationTime = 0, fromCache = None,
                     error = Some EmptyModel\<rparr>)
      else
        (let cacheKey = generateCacheKey (realVector probePosition) (realVector probeDirection)
                          heartModel
         in case cache s cacheKey of
              Some cachedResult \<Rightarrow>
                (s\<lparr>cacheHits := cacheHits s + 1\<rparr>,
                 Inr (cachedResult\<lparr>fromCache := Some True, calculationTime := 0\<rparr>))
            | None \<Rightarrow>
                (let s1 = s\<lparr>cacheMisses := cacheMisses s + 1\<rparr>
                 in case fromPointAndNormal (realVector probePosition) (realVector probeDirection) of
                      Inl e \<Rightarrow> (s1, Inl e)
                    | Inr cuttingPlane \<Rightarrow>
                        (let intersectionLines = calculateIntersectionLines cuttingPlane heartModel;
                             calculationTime = endTime - startTime;
                             result = \<lparr>lines = intersectionLines,
                                       isValid = (length intersectionLines > 0),
                                       calculationTime = calculationTime,
                                       fromCache = None, error = None\<rparr>;
                             s2 = (if isValid result
                                   then s1\<lparr>cache := (cache s1)(cacheKey \<mapsto> result)\<rparr> else s1);
                             s3 = s2\<lparr>lastResult := Some result\<rparr>;
                             s4 = s3\<lparr>totalCalculations := totalCalculations s3 + 1\<rparr>
                         in (s4, Inr result)))))"

definition updateSection ::
  "RealTimeUpdateService \<Rightarrow> real \<Rightarrow> real \<Rightarrow> number Vector3 \<Rightarrow> number Vector3 \<Rightarrow> HeartModel
     \<Rightarrow> RealTimeUpdateService \<times> IntersectionResult" where
  "updateSection s startTime endTime probePosition probeDirection heartModel =
     (case updateSection_try s startTime endTime probePosition probeDirection heartModel of
        (s', Inr result) \<Rightarrow> (s', result)
      | (s', Inl e) \<Rightarrow>
          (s', \<lparr>lines = [], isValid = False, calculationTime = endTime - startTime,
                 fromCache = None, error = Some (ErrorMessage e)\<rparr>))"

subsection \<open>Management operations\<close>

definition clearCache :: "RealTimeUpdateService \<Rightarrow> RealTimeUpdateService" where
  "clearCache s = s\<lparr>cache := Map.empty, lastResult := None, cacheHits := 0, cacheMisses := 0,
     totalCalculations := 0\<rparr>"

definition getLastResult :: "RealTimeUpdateService \<Rightarrow> IntersectionResult option" where
  "getLastResult s = lastResult s"

record PerformanceStats =
  stats_cacheHitRate :: real
  stats_totalCalculations :: nat
  stats_cacheHits :: nat
  stats_cacheMisses :: nat

definition getPerformanceStats :: "RealTimeUpdateService \<Rightarrow> PerformanceStats" where
  "getPerformanceStats s =
     (let totalRequests = cacheHits s + cacheMisses s;
          cacheHitRate = (if totalRequests > 0 then real (cacheHits s) / real totalRequests else 0)
      in \<lparr>stats_cacheHitRate = cacheHitRate,
          stats_totalCalculations = totalCalculations s,
          stats_cacheHits = cacheHits s,
          stats_cacheMisses = cacheMisses s\<rparr>)"

text \<open>\<open>cache.size\<close> is the number of keys of the map.\<close>

definition setCacheSizeLimit :: "number \<Rightarrow> RealTimeUpdateService \<Rightarrow> RealTimeUpdateService" where
  "setCacheSizeLimit limit s =
     (if number_less limit (Finite (real (card (dom (cache s))))) then clearCache s else s)"

section \<open>SectionVisualizationService\<close>







section \<open>Notions of the specification\<close>






section \<open>Vectors\<close>

lemma Vector3_clone_id: "Vector3_clone v = v"
  by (simp add: Vector3_clone_def)

section \<open>The plane-triangle intersection\<close>








text \<open>
  Claim C2, as amended.  For every plane, tolerance and triangle in which exactly one
  vertex has a distance of magnitude below the tolerance, the result is that vertex
  followed by the crossing point of every one of the three edges \<open>v0v1\<close>, \<open>v1v2\<close>, \<open>v2v0\<close>
  whose end distances have a negative product; the edges at the on-plane vertex are
  tested like the opposite one.  When the distance of the on-plane vertex is exactly 0,
  only the opposite edge can contribute, and the result is the vertex and at most one
  crossing point.
\<close>

theorem planeTriangleIntersection_one_on_plane:
  "length (filter (\<lambda>v. \<bar>distanceToPoint p v\<bar> < tol) [v0, v1, v2]) = 1 \<longrightarrow>
     planeTriangleIntersection p (v0, v1, v2) tol =
       filter (\<lambda>v. \<bar>distanceToPoint p v\<bar> < tol) [v0, v1, v2] @
       edgeCrossing (distanceToPoint p v0) (distanceToPoint p v1) v0 v1 @
       edgeCrossing (distanceToPoint p v1) (distanceToPoint p v2) v1 v2 @
       edgeCrossing (distanceToPoint p v2) (distanceToPoint p v0) v2 v0 \<and>
     (distanceToPoint p v0 = 0 \<longrightarrow>
        planeTriangleIntersection p (v0, v1, v2) tol =
          v0 # edgeCrossing (distanceToPoint p v1) (distanceToPoint p v2) v1 v2) \<and>
     (distanceToPoint p v1 = 0 \<longrightarrow>
        planeTriangleIntersection p (v0, v1, v2) tol =
          v1 # edgeCrossing (distanceToPoint p v2) (distanceToPoint p v0) v2 v0) \<and>
     (distanceToPoint p v2 = 0 \<longrightarrow>
        planeTriangleIntersection p (v0, v1, v2) tol =
          v2 # edgeCrossing (distanceToPoint p v0) (distanceToPoint p v1) v0 v1) \<and>
     ((distanceToPoint p v0 = 0 \<or> distanceToPoint p v1 = 0 \<or> distanceToPoint p v2 = 0) \<longrightarrow>
        length (planeTriangleIntersection p (v0, v1, v2) tol) \<le> 2)"
proof
  define e0 where "e0 = distanceToPoint p v0"
  define e1 where "e1 = distanceToPoint p v1"
  define e2 where "e2 = distanceToPoint p v2"
  assume "length (filter (\<lambda>v. \<bar>distanceToPoint p v\<bar> < tol) [v0, v1, v2]) = 1"
  then have one: "(\<bar>e0\<bar> < tol \<and> \<not> \<bar>e1\<bar> < tol \<and> \<not> \<bar>e2\<bar> < tol) \<or>
                  (\<not> \<bar>e0\<bar> < tol \<and> \<bar>e1\<bar> < tol \<and> \<not> \<bar>e2\<bar> < tol) \<or>
                  (\<not> \<bar>e0\<bar> < tol \<and> \<not> \<bar>e1\<bar> < tol \<and> \<bar>e2\<bar> < tol)"
    unfolding e0_def e1_def e2_def by (simp split: if_splits)
  have len1: "length (edgeCrossing a b u v) \<le> 1" for a b u v
    by (simp add: edgeCrossing_def Let_def)
  have z: "edgeCrossing 0 b u v = []" "edgeCrossing a 0 u v = []" for a b u v
    by (simp_all add: edgeCrossing_def)
  from one show "planeTriangleIntersection p (v0, v1, v2) tol =
       filter (\<lambda>v. \<bar>distanceToPoint p v\<bar> < tol) [v0, v1, v2] @
       edgeCrossing (distanceToPoint p v0) (distanceToPoint p v1) v0 v1 @
       edgeCrossing (distanceToPoint p v1) (distanceToPoint p v2) v1 v2 @
       edgeCrossing (distanceToPoint p v2) (distanceToPoint p v0) v2 v0 \<and>
     (distanceToPoint p v0 = 0 \<longrightarrow>
        planeTriangleIntersection p (v0, v1, v2) tol =
          v0 # edgeCrossing (distanceToPoint p v1) (distanceToPoint p v2) v1 v2) \<and>
     (distanceToPoint p v1 = 0 \<longrightarrow>
        planeTriangleIntersection p (v0, v1, v2) tol =
          v1 # edgeCrossing (distanceToPoint p v2) (distanceToPoint p v0) v2 v0) \<and>
     (distanceToPoint p v2 = 0 \<longrightarrow>
        planeTriangleIntersection p (v0, v1, v2) tol =
          v2 # edgeCrossing (distanceToPoint p v0) (distanceToPoint p v1) v0 v1) \<and>
     ((distanceToPoint p v0 = 0 \<or> distanceToPoint p v1 = 0 \<or> distanceToPoint p v2 = 0) \<longrightarrow>
        length (planeTriangleIntersection p (v0, v1, v2) tol) \<le> 2)"
    unfolding e0_def [symmetric] e1_def [symmetric] e2_def [symmetric]
    using len1 [of e0 e1 v0 v1] len1 [of e1 e2 v1 v2] len1 [of e2 e0 v2 v0]
    apply (elim disjE conjE)
      apply (auto simp: planeTriangleIntersection_def Let_def onPlaneVertices_def
        Vector3_clone_id z e0_def [symmetric] e1_def [symmetric] e2_def [symmetric])
    done
qed

theorem planeTriangleIntersection_one_on_plane_witness:
  "length (filter (\<lambda>v. \<bar>distanceToPoint \<lparr>normal = \<lparr>x = 0, y = 0, z = 1\<rparr>, constant_term = 0\<rparr> v\<bar>
                        < defaultTolerance)
     [\<lparr>x = 0, y = 0, z = 0\<rparr>, \<lparr>x = 1, y = 0, z = 1\<rparr>, \<lparr>x = 0, y = 1, z = - 1\<rparr>]) = 1 \<and>
   distanceToPoint \<lparr>normal = \<lparr>x = 0, y = 0, z = 1\<rparr>, constant_term = 0\<rparr> \<lparr>x = 0, y = 0, z = 0\<rparr> = 0 \<and>
   planeTriangleIntersection \<lparr>normal = \<lparr>x = 0, y = 0, z = 1\<rparr>, constant_term = 0\<rparr>
     (\<lparr>x = 0, y = 0, z = 0\<rparr>, \<lparr>x = 1, y = 0, z = 1\<rparr>, \<lparr>x = 0, y = 1, z = - 1\<rparr>) defaultTolerance
     = \<lparr>x = 0, y = 0, z = 0\<rparr> #
       edgeCrossing
         (distanceToPoint \<lparr>normal = \<lparr>x = 0, y = 0, z = 1\<rparr>, constant_term = 0\<rparr> \<lparr>x = 1, y = 0, z = 1\<rparr>)
         (distanceToPoint \<lparr>normal = \<lparr>x = 0, y = 0, z = 1\<rparr>, constant_term = 0\<rparr> \<lparr>x = 0, y = 1, z = - 1\<rparr>)
         \<lparr>x = 1, y = 0, z = 1\<rparr> \<lparr>x = 0, y = 1, z = - 1\<rparr>"
proof -
  have h: "length (filter (\<lambda>v. \<bar>distanceToPoint \<lparr>normal = \<lparr>x = 0, y = 0, z = 1\<rparr>, constant_term = 0\<rparr> v\<bar>
                        < defaultTolerance)
     [\<lparr>x = 0, y = 0, z = 0\<rparr>, \<lparr>x = 1, y = 0, z = 1\<rparr>, \<lparr>x = 0, y = 1, z = - 1\<rparr>]) = 1"
    by (simp add: distanceToPoint_def Vector3_dot_def defaultTolerance_def)
  have z: "distanceToPoint \<lparr>normal = \<lparr>x = 0, y = 0, z = 1\<rparr>, constant_term = 0\<rparr>
             \<lparr>x = 0, y = 0, z = 0\<rparr> = 0"
    by (simp add: distanceToPoint_def Vector3_dot_def)
  from planeTriangleIntersection_one_on_plane [rule_format, OF h, THEN conjunct2, THEN conjunct1,
      rule_format, OF z] h z
  show ?thesis by blast
qed

text \<open>
  The claim as stated fails: with the default tolerance, \<open>v0\<close> at distance \<open>-1e-11\<close> is
  the one on-plane vertex, and the result holds \<open>v0\<close>, a crossing point of the edge
  \<open>v0v1\<close> at that vertex, and the crossing point of the opposite edge.
\<close>

theorem planeTriangleIntersection_one_on_plane_counterexample:
  "\<bar>distanceToPoint \<lparr>normal = \<lparr>x = 0, y = 0, z = 1\<rparr>, constant_term = 0\<rparr>
      \<lparr>x = 0, y = 0, z = - (1 / 10 ^ 11)\<rparr>\<bar> < defaultTolerance \<and>
   \<not> \<bar>distanceToPoint \<lparr>normal = \<lparr>x = 0, y = 0, z = 1\<rparr>, constant_term = 0\<rparr>
      \<lparr>x = 1, y = 0, z = 1\<rparr>\<bar> < defaultTolerance \<and>
   \<not> \<bar>distanceToPoint \<lparr>normal = \<lparr>x = 0, y = 0, z = 1\<rparr>, constant_term = 0\<rparr>
      \<lparr>x = 0, y = 1, z = - 1\<rparr>\<bar> < defaultTolerance \<and>
   planeTriangleIntersection \<lparr>normal = \<lparr>x = 0, y = 0, z = 1\<rparr>, constant_term = 0\<rparr>
     (\<lparr>x = 0, y = 0, z = - (1 / 10 ^ 11)\<rparr>, \<lparr>x = 1, y = 0, z = 1\<rparr>, \<lparr>x = 0, y = 1, z = - 1\<rparr>)
     defaultTolerance
     = [\<lparr>x = 0, y = 0, z = - (1 / 10 ^ 11)\<rparr>,
        \<lparr>x = 1 / 100000000001, y = 0, z = 0\<rparr>,
        \<lparr>x = 1 / 2, y = 1 / 2, z = 0\<rparr>] \<and>
   edgeCrossing
     (distanceToPoint \<lparr>normal = \<lparr>x = 0, y = 0, z = 1\<rparr>, constant_term = 0\<rparr>
        \<lparr>x = 0, y = 0, z = - (1 / 10 ^ 11)\<rparr>)
     (distanceToPoint \<lparr>normal = \<lparr>x = 0, y = 0, z = 1\<rparr>, constant_term = 0\<rparr> \<lparr>x = 1, y = 0, z = 1\<rparr>)
     \<lparr>x = 0, y = 0, z = - (1 / 10 ^ 11)\<rparr> \<lparr>x = 1, y = 0, z = 1\<rparr>
     = [\<lparr>x = 1 / 100000000001, y = 0, z = 0\<rparr>]"
  by (simp add: planeTriangleIntersection_def distanceToPoint_def Vector3_dot_def edgeCrossing_def
      Vector3_add_def Vector3_subtract_def Vector3_multiplyScalar_def Let_def onPlaneVertices_def
      defaultTolerance_def Vector3_clone_def)

section \<open>The intersection of the service and the triangle intersection\<close>









section \<open>The paths of updateSection\<close>

lemma updateSection_invalid:
  assumes "\<not> isValidVector pos \<or> \<not> isValidVector dir"
  shows "updateSection s t0 t1 pos dir model =
    (s, \<lparr>lines = [], isValid = False, calculationTime = 0, fromCache = None,
         error = Some InvalidProbe\<rparr>)"
  using assms by (auto simp: updateSection_def updateSection_try_def)

lemma updateSection_try_hit:
  assumes "isValidVector pos" "isValidVector dir" "triangles model \<noteq> []"
    and "cache s (generateCacheKey (realVector pos) (realVector dir) model) = Some c"
  shows "updateSection_try s t0 t1 pos dir model =
    (s\<lparr>cacheHits := cacheHits s + 1\<rparr>, Inr (c\<lparr>fromCache := Some True, calculationTime := 0\<rparr>))"
  using assms by (simp add: updateSection_try_def Let_def)

lemma updateSection_try_miss:
  assumes "isValidVector pos" "isValidVector dir" "triangles model \<noteq> []"
    and "cache s (generateCacheKey (realVector pos) (realVector dir) model) = None"
    and "fromPointAndNormal (realVector pos) (realVector dir) = Inr plane"
  shows "updateSection_try s t0 t1 pos dir model =
    ((if calculateIntersectionLines plane model \<noteq> []
      then s\<lparr>cacheMisses := cacheMisses s + 1,
             cache := (cache s)(generateCacheKey (realVector pos) (realVector dir) model \<mapsto>
               \<lparr>lines = calculateIntersectionLines plane model, isValid = True,
                calculationTime = t1 - t0, fromCache = None, error = None\<rparr>)\<rparr>
      else s\<lparr>cacheMisses := cacheMisses s + 1\<rparr>)
       \<lparr>lastResult := Some \<lparr>lines = calculateIntersectionLines plane model,
                  isValid = (calculateIntersectionLines plane model \<noteq> []),
                  calculationTime = t1 - t0, fromCache = None, error = None\<rparr>,
        totalCalculations := totalCalculations s + 1\<rparr>,
     Inr \<lparr>lines = calculateIntersectionLines plane model,
          isValid = (calculateIntersectionLines plane model \<noteq> []),
          calculationTime = t1 - t0, fromCache = None, error = None\<rparr>)"
  using assms by (simp add: updateSection_try_def Let_def)

lemma updateSection_try_throw:
  assumes "isValidVector pos" "isValidVector dir" "triangles model \<noteq> []"
    and "cache s (generateCacheKey (realVector pos) (realVector dir) model) = None"
    and "fromPointAndNormal (realVector pos) (realVector dir) = Inl e"
  shows "updateSection_try s t0 t1 pos dir model = (s\<lparr>cacheMisses := cacheMisses s + 1\<rparr>, Inl e)"
  using assms by (simp add: updateSection_try_def Let_def)

lemma generateCacheKey_length:
  "length (triangles m1) = length (triangles m2) \<Longrightarrow>
   generateCacheKey p d m1 = generateCacheKey p d m2"
  by (simp add: generateCacheKey_def)

lemma fromPointAndNormal_zero: "fromPointAndNormal p \<lparr>x = 0, y = 0, z = 0\<rparr> = Inl ZeroNormal"
  by (simp add: fromPointAndNormal_def Plane_new_def Vector3_normalize_def Vector3_length_def Let_def)

lemma fromPointAndNormal_unitZ:
  "fromPointAndNormal \<lparr>x = 0, y = 0, z = 0\<rparr> \<lparr>x = 0, y = 0, z = 1\<rparr> =
     Inr \<lparr>normal = \<lparr>x = 0, y = 0, z = 1\<rparr>, constant_term = 0\<rparr>"
  by (simp add: fromPointAndNormal_def Plane_new_def Vector3_normalize_def Vector3_length_def
      Vector3_dot_def Let_def)

section \<open>Claims about updateSection\<close>




text \<open>
  Claim C3, as amended.  When a call of \<open>updateSection\<close> returns a valid result (and the
  clock did not run backwards during it), an immediately following call with a valid pose
  of the same cache key and the same mesh returns \<open>fromCache = true\<close>, the same lines and
  the calculation time 0, which does not exceed the calculation time of the first call.
\<close>

theorem updateSection_second_call_cached:
  assumes first: "updateSection s t0 t1 pos dir model = (s1, r1)"
    and ok: "isValid r1"
    and clock: "t0 \<le> t1"
    and valid2: "isValidVector pos2" "isValidVector dir2"
    and key: "generateCacheKey (realVector pos2) (realVector dir2) model =
              generateCacheKey (realVector pos) (realVector dir) model"
  shows "fromCache (snd (updateSection s1 t2 t3 pos2 dir2 model)) = Some True \<and>
         calculationTime (snd (updateSection s1 t2 t3 pos2 dir2 model)) = 0 \<and>
         calculationTime (snd (updateSection s1 t2 t3 pos2 dir2 model)) \<le> calculationTime r1 \<and>
         lines (snd (updateSection s1 t2 t3 pos2 dir2 model)) = lines r1"
proof -
  let ?k = "generateCacheKey (realVector pos) (realVector dir) model"
  have "isValidVector pos \<and> isValidVector dir"
  proof (rule ccontr)
    assume "\<not> (isValidVector pos \<and> isValidVector dir)"
    then have "\<not> isValidVector pos \<or> \<not> isValidVector dir" by simp
    from updateSection_invalid [OF this, of s t0 t1 model] first ok show False by simp
  qed
  then have valid: "isValidVector pos" "isValidVector dir" by simp_all
  have nonempty: "triangles model \<noteq> []"
    using first ok valid by (auto simp: updateSection_def updateSection_try_def)
  have "\<exists>c. cache s1 ?k = Some c \<and> lines c = lines r1 \<and> 0 \<le> calculationTime r1"
  proof (cases "cache s ?k")
    case (Some c)
    from first show ?thesis
      unfolding updateSection_def updateSection_try_hit [OF valid nonempty Some]
      using Some by auto
  next
    case None
    show ?thesis
    proof (cases "fromPointAndNormal (realVector pos) (realVector dir)")
      case (Inl e)
      from first ok show ?thesis
        unfolding updateSection_def updateSection_try_throw [OF valid nonempty None Inl]
        by auto
    next
      case (Inr plane)
      from first ok clock show ?thesis
        unfolding updateSection_def updateSection_try_miss [OF valid nonempty None Inr]
        by (auto split: if_splits)
    qed
  qed
  then obtain c where c: "cache s1 ?k = Some c" "lines c = lines r1" "0 \<le> calculationTime r1"
    by blast
  from c(1) key have hit: "cache s1 (generateCacheKey (realVector pos2) (realVector dir2) model) = Some c"
    by simp
  show ?thesis
    using c(2,3)
    by (simp add: updateSection_def updateSection_try_hit [OF valid2 nonempty hit])
qed

theorem updateSection_second_call_cached_witness:
  "fromCache (snd (updateSection
      (fst (updateSection newService 0 1 \<lparr>x = Finite 0, y = Finite 0, z = Finite 0\<rparr>
         \<lparr>x = Finite 0, y = Finite 0, z = Finite 1\<rparr>
         \<lparr>triangles = [[\<lparr>x = 0, y = 0, z = - 1\<rparr>, \<lparr>x = 1, y = 0, z = 1\<rparr>, \<lparr>x = 0, y = 1, z = 1\<rparr>]]\<rparr>))
      1 2 \<lparr>x = Finite 0, y = Finite 0, z = Finite 0\<rparr> \<lparr>x = Finite 0, y = Finite 0, z = Finite 1\<rparr>
      \<lparr>triangles = [[\<lparr>x = 0, y = 0, z = - 1\<rparr>, \<lparr>x = 1, y = 0, z = 1\<rparr>, \<lparr>x = 0, y = 1, z = 1\<rparr>]]\<rparr>))
   = Some True"
proof -
  let ?pos = "\<lparr>x = Finite 0, y = Finite 0, z = Finite 0\<rparr>"
  let ?dir = "\<lparr>x = Finite 0, y = Finite 0, z = Finite 1\<rparr>"
  let ?model = "\<lparr>triangles = [[\<lparr>x = 0, y = 0, z = - 1\<rparr>, \<lparr>x = 1, y = 0, z = 1\<rparr>, \<lparr>x = 0, y = 1, z = (1::real)\<rparr>]]\<rparr>"
  let ?plane = "\<lparr>normal = \<lparr>x = 0, y = 0, z = 1\<rparr>, constant_term = 0\<rparr>"
  have v: "isValidVector ?pos" "isValidVector ?dir"
    by (simp_all add: isValidVector_def)
  have ne: "triangles ?model \<noteq> []" by simp
  have miss: "cache newService (generateCacheKey (realVector ?pos) (realVector ?dir) ?model) = None"
    by (simp add: newService_def)
  have plane: "fromPointAndNormal (realVector ?pos) (realVector ?dir) = Inr ?plane"
    by (simp add: realVector_def fromPointAndNormal_unitZ)
  have code: "calculateIntersectionLines ?plane ?model
      = [[\<lparr>x = 1 / 2, y = 0, z = 0\<rparr>, \<lparr>x = 0, y = 1 / 2, z = 0\<rparr>]]"
    by (simp add: calculateIntersectionLines_def optimizeTriangleOrder_def
        calculateTriangleIntersection_def calculateEdgeIntersection_def distanceToPoint_def
        Vector3_dot_def Let_def)
  have ok: "isValid (snd (updateSection newService 0 1 ?pos ?dir ?model))"
    by (simp add: updateSection_def updateSection_try_miss [OF v ne miss plane] code)
  have clock: "(0::real) \<le> 1" by simp
  from updateSection_second_call_cached [OF prod.collapse [symmetric] ok clock v refl, of 1 2]
  show ?thesis by simp
qed

text \<open>
  The claim as stated fails for a pose and mesh without intersection: the first result
  is invalid and is not stored, so the second call computes again and carries no
  \<open>fromCache\<close> mark.
\<close>

theorem updateSection_second_call_cached_counterexample:
  "fromCache (snd (updateSection
      (fst (updateSection newService 0 1 \<lparr>x = Finite 0, y = Finite 0, z = Finite 0\<rparr>
         \<lparr>x = Finite 0, y = Finite 0, z = Finite 1\<rparr>
         \<lparr>triangles = [[\<lparr>x = 0, y = 0, z = 1\<rparr>, \<lparr>x = 1, y = 0, z = 1\<rparr>, \<lparr>x = 0, y = 1, z = 1\<rparr>]]\<rparr>))
      1 2 \<lparr>x = Finite 0, y = Finite 0, z = Finite 0\<rparr> \<lparr>x = Finite 0, y = Finite 0, z = Finite 1\<rparr>
      \<lparr>triangles = [[\<lparr>x = 0, y = 0, z = 1\<rparr>, \<lparr>x = 1, y = 0, z = 1\<rparr>, \<lparr>x = 0, y = 1, z = 1\<rparr>]]\<rparr>))
   = None"
proof -
  let ?pos = "\<lparr>x = Finite 0, y = Finite 0, z = Finite 0\<rparr>"
  let ?dir = "\<lparr>x = Finite 0, y = Finite 0, z = Finite 1\<rparr>"
  let ?model = "\<lparr>triangles = [[\<lparr>x = 0, y = 0, z = 1\<rparr>, \<lparr>x = 1, y = 0, z = 1\<rparr>, \<lparr>x = 0, y = 1, z = (1::real)\<rparr>]]\<rparr>"
  let ?plane = "\<lparr>normal = \<lparr>x = 0, y = 0, z = 1\<rparr>, constant_term = 0\<rparr>"
  let ?s1 = "newService\<lparr>cacheMisses := cacheMisses newService + 1,
     lastResult := Some \<lparr>lines = [], isValid = False, calculationTime = 1 - 0, fromCache = None,
       error = None\<rparr>,
     totalCalculations := totalCalculations newService + 1\<rparr>"
  have v: "isValidVector ?pos" "isValidVector ?dir"
    by (simp_all add: isValidVector_def)
  have ne: "triangles ?model \<noteq> []" by simp
  have miss: "cache newService (generateCacheKey (realVector ?pos) (realVector ?dir) ?model) = None"
    by (simp add: newService_def)
  have plane: "fromPointAndNormal (realVector ?pos) (realVector ?dir) = Inr ?plane"
    by (simp add: realVector_def fromPointAndNormal_unitZ)
  have code: "calculateIntersectionLines ?plane ?model = []"
    by (simp add: calculateIntersectionLines_def optimizeTriangleOrder_def
        calculateTriangleIntersection_def distanceToPoint_def Vector3_dot_def Let_def)
  have first: "fst (updateSection newService 0 1 ?pos ?dir ?model) = ?s1"
    by (simp add: updateSection_def updateSection_try_miss [OF v ne miss plane] code)
  have miss1: "cache ?s1 (generateCacheKey (realVector ?pos) (realVector ?dir) ?model) = None"
    by (simp add: newService_def)
  show ?thesis
    unfolding first
    by (subst updateSection_def, subst updateSection_try_miss [OF v ne miss1 plane])
      (simp add: code)
qed

text \<open>
  Claim C4.  There are two meshes with the same number of triangles and different
  geometry, and a pose, such that \<open>updateSection\<close> on the first mesh gives a valid result
  and \<open>updateSection\<close> with the same pose on the second mesh then returns the lines of the
  first mesh with \<open>fromCache = true\<close>; a new service gives other lines for the second mesh.
\<close>

theorem updateSection_stale_cache:
  "length (triangles \<lparr>triangles = [[\<lparr>x = 0, y = 0, z = - 1\<rparr>, \<lparr>x = 1, y = 0, z = 1\<rparr>, \<lparr>x = 0, y = 1, z = (1::real)\<rparr>]]\<rparr>)
     = length (triangles \<lparr>triangles = [[\<lparr>x = 0, y = 0, z = - 1\<rparr>, \<lparr>x = 2, y = 0, z = 1\<rparr>, \<lparr>x = 0, y = 2, z = (1::real)\<rparr>]]\<rparr>) \<and>
   isValid (snd (updateSection newService 0 1 \<lparr>x = Finite 0, y = Finite 0, z = Finite 0\<rparr>
      \<lparr>x = Finite 0, y = Finite 0, z = Finite 1\<rparr>
      \<lparr>triangles = [[\<lparr>x = 0, y = 0, z = - 1\<rparr>, \<lparr>x = 1, y = 0, z = 1\<rparr>, \<lparr>x = 0, y = 1, z = 1\<rparr>]]\<rparr>)) \<and>
   lines (snd (updateSection newService 0 1 \<lparr>x = Finite 0, y = Finite 0, z = Finite 0\<rparr>
      \<lparr>x = Finite 0, y = Finite 0, z = Finite 1\<rparr>
      \<lparr>triangles = [[\<lparr>x = 0, y = 0, z = - 1\<rparr>, \<lparr>x = 1, y = 0, z = 1\<rparr>, \<lparr>x = 0, y = 1, z = 1\<rparr>]]\<rparr>))
     = [[\<lparr>x = 1 / 2, y = 0, z = 0\<rparr>, \<lparr>x = 0, y = 1 / 2, z = 0\<rparr>]] \<and>
   snd (updateSection
      (fst (updateSection newService 0 1 \<lparr>x = Finite 0, y = Finite 0, z = Finite 0\<rparr>
         \<lparr>x = Finite 0, y = Finite 0, z = Finite 1\<rparr>
         \<lparr>triangles = [[\<lparr>x = 0, y = 0, z = - 1\<rparr>, \<lparr>x = 1, y = 0, z = 1\<rparr>, \<lparr>x = 0, y = 1, z = 1\<rparr>]]\<rparr>))
      1 2 \<lparr>x = Finite 0, y = Finite 0, z = Finite 0\<rparr> \<lparr>x = Finite 0, y = Finite 0, z = Finite 1\<rparr>
      \<lparr>triangles = [[\<lparr>x = 0, y = 0, z = - 1\<rparr>, \<lparr>x = 2, y = 0, z = 1\<rparr>, \<lparr>x = 0, y = 2, z = 1\<rparr>]]\<rparr>)
     = \<lparr>lines = [[\<lparr>x = 1 / 2, y = 0, z = 0\<rparr>, \<lparr>x = 0, y = 1 / 2, z = 0\<rparr>]], isValid = True,
        calculationTime = 0, fromCache = Some True, error = None\<rparr> \<and>
   lines (snd (updateSection newService 1 2 \<lparr>x = Finite 0, y = Finite 0, z = Finite 0\<rparr>
      \<lparr>x = Finite 0, y = Finite 0, z = Finite 1\<rparr>
      \<lparr>triangles = [[\<lparr>x = 0, y = 0, z = - 1\<rparr>, \<lparr>x = 2, y = 0, z = 1\<rparr>, \<lparr>x = 0, y = 2, z = 1\<rparr>]]\<rparr>))
     = [[\<lparr>x = 1, y = 0, z = 0\<rparr>, \<lparr>x = 0, y = 1, z = 0\<rparr>]]"
proof -
  let ?pos = "\<lparr>x = Finite 0, y = Finite 0, z = Finite 0\<rparr>"
  let ?dir = "\<lparr>x = Finite 0, y = Finite 0, z = Finite 1\<rparr>"
  let ?m1 = "\<lparr>triangles = [[\<lparr>x = 0, y = 0, z = - 1\<rparr>, \<lparr>x = 1, y = 0, z = 1\<rparr>, \<lparr>x = 0, y = 1, z = (1::real)\<rparr>]]\<rparr>"
  let ?m2 = "\<lparr>triangles = [[\<lparr>x = 0, y = 0, z = - 1\<rparr>, \<lparr>x = 2, y = 0, z = 1\<rparr>, \<lparr>x = 0, y = 2, z = (1::real)\<rparr>]]\<rparr>"
  let ?plane = "\<lparr>normal = \<lparr>x = 0, y = 0, z = 1\<rparr>, constant_term = 0\<rparr>"
  let ?k = "generateCacheKey (realVector ?pos) (realVector ?dir) ?m1"
  let ?r1 = "\<lparr>lines = [[\<lparr>x = 1 / 2, y = 0, z = 0\<rparr>, \<lparr>x = 0, y = 1 / 2, z = (0::real)\<rparr>]], isValid = True,
        calculationTime = 1 - 0, fromCache = None, error = None\<rparr>"
  have v: "isValidVector ?pos" "isValidVector ?dir"
    by (simp_all add: isValidVector_def)
  have ne1: "triangles ?m1 \<noteq> []" and ne2: "triangles ?m2 \<noteq> []" by simp_all
  have plane: "fromPointAndNormal (realVector ?pos) (realVector ?dir) = Inr ?plane"
    by (simp add: realVector_def fromPointAndNormal_unitZ)
  have miss1: "cache newService ?k = None"
    by (simp add: newService_def)
  have miss2: "cache newService (generateCacheKey (realVector ?pos) (realVector ?dir) ?m2) = None"
    by (simp add: newService_def)
  have code1: "calculateIntersectionLines ?plane ?m1
      = [[\<lparr>x = 1 / 2, y = 0, z = 0\<rparr>, \<lparr>x = 0, y = 1 / 2, z = 0\<rparr>]]"
    by (simp add: calculateIntersectionLines_def optimizeTriangleOrder_def
        calculateTriangleIntersection_def calculateEdgeIntersection_def distanceToPoint_def
        Vector3_dot_def Let_def)
  have code2: "calculateIntersectionLines ?plane ?m2
      = [[\<lparr>x = 1, y = 0, z = 0\<rparr>, \<lparr>x = 0, y = 1, z = 0\<rparr>]]"
    by (simp add: calculateIntersectionLines_def optimizeTriangleOrder_def
        calculateTriangleIntersection_def calculateEdgeIntersection_def distanceToPoint_def
        Vector3_dot_def Let_def)
  have first: "updateSection newService 0 1 ?pos ?dir ?m1 =
     (newService\<lparr>cacheMisses := cacheMisses newService + 1, cache := (cache newService)(?k \<mapsto> ?r1),
        lastResult := Some ?r1, totalCalculations := totalCalculations newService + 1\<rparr>, ?r1)"
    by (simp add: updateSection_def updateSection_try_miss [OF v ne1 miss1 plane] code1)
  have keys: "generateCacheKey (realVector ?pos) (realVector ?dir) ?m2 = ?k"
    by (rule generateCacheKey_length) simp
  have hit: "cache (fst (updateSection newService 0 1 ?pos ?dir ?m1))
      (generateCacheKey (realVector ?pos) (realVector ?dir) ?m2) = Some ?r1"
    unfolding first keys by simp
  have second: "snd (updateSection (fst (updateSection newService 0 1 ?pos ?dir ?m1)) 1 2 ?pos ?dir ?m2)
     = ?r1\<lparr>fromCache := Some True, calculationTime := 0\<rparr>"
    by (subst updateSection_def, subst updateSection_try_hit [OF v ne2 hit]) simp
  have fresh: "lines (snd (updateSection newService 1 2 ?pos ?dir ?m2))
     = [[\<lparr>x = 1, y = 0, z = 0\<rparr>, \<lparr>x = 0, y = 1, z = 0\<rparr>]]"
    by (simp add: updateSection_def updateSection_try_miss [OF v ne2 miss2 plane] code2)
  show ?thesis
    unfolding second fresh unfolding first by simp
qed

text \<open>
  Claim C5.  For every pose in which a component of the position or of the direction is
  NaN or not finite, every mesh and every service state, \<open>updateSection\<close> returns a result
  with \<open>isValid = false\<close>, no lines and an error message, and leaves the service unchanged;
  the model has no exception on this path.
\<close>

theorem updateSection_invalid_pose:
  assumes "isNaN (x pos) \<or> \<not> isFinite (x pos) \<or> isNaN (y pos) \<or> \<not> isFinite (y pos) \<or>
           isNaN (z pos) \<or> \<not> isFinite (z pos) \<or>
           isNaN (x dir) \<or> \<not> isFinite (x dir) \<or> isNaN (y dir) \<or> \<not> isFinite (y dir) \<or>
           isNaN (z dir) \<or> \<not> isFinite (z dir)"
  shows "updateSection s t0 t1 pos dir model =
    (s, \<lparr>lines = [], isValid = False, calculationTime = 0, fromCache = None,
         error = Some InvalidProbe\<rparr>)"
proof -
  from assms have "\<not> isValidVector pos \<or> \<not> isValidVector dir"
    by (auto simp: isValidVector_def)
  then show ?thesis by (rule updateSection_invalid)
qed

theorem updateSection_invalid_pose_witness:
  "updateSection newService 0 1 \<lparr>x = NaN, y = Finite 0, z = Finite 0\<rparr>
      \<lparr>x = Finite 0, y = Finite 1, z = Finite 0\<rparr>
      \<lparr>triangles = [[\<lparr>x = - 1, y = - 1, z = 0\<rparr>, \<lparr>x = 1, y = - 1, z = 0\<rparr>, \<lparr>x = 0, y = 1, z = 0\<rparr>]]\<rparr> =
    (newService, \<lparr>lines = [], isValid = False, calculationTime = 0, fromCache = None,
         error = Some InvalidProbe\<rparr>)"
  by (rule updateSection_invalid_pose) simp

text \<open>
  Claim C6.  \<open>updateSection\<close> propagates no exception: whenever the body of its \<open>try\<close> block
  throws, the call returns a result with \<open>isValid = false\<close>, no lines and the message of
  the error.  In particular a zero direction passes the validation, and on a cache miss
  with a non-empty mesh the plane construction throws and the call returns such a result.
\<close>

theorem updateSection_catches:
  "(\<forall>s' e. updateSection_try s t0 t1 pos dir model = (s', Inl e) \<longrightarrow>
       updateSection s t0 t1 pos dir model =
         (s', \<lparr>lines = [], isValid = False, calculationTime = t1 - t0, fromCache = None,
               error = Some (ErrorMessage e)\<rparr>)) \<and>
   (isValidVector pos \<and> isValidVector dir \<and> realVector dir = Vector3_zero \<and>
    triangles model \<noteq> [] \<and>
    cache s (generateCacheKey (realVector pos) (realVector dir) model) = None \<longrightarrow>
       updateSection_try s t0 t1 pos dir model = (s\<lparr>cacheMisses := cacheMisses s + 1\<rparr>, Inl ZeroNormal) \<and>
       updateSection s t0 t1 pos dir model =
         (s\<lparr>cacheMisses := cacheMisses s + 1\<rparr>,
          \<lparr>lines = [], isValid = False, calculationTime = t1 - t0, fromCache = None,
            error = Some (ErrorMessage ZeroNormal)\<rparr>))"
proof (intro conjI allI impI)
  fix s' e
  assume "updateSection_try s t0 t1 pos dir model = (s', Inl e)"
  then show "updateSection s t0 t1 pos dir model =
         (s', \<lparr>lines = [], isValid = False, calculationTime = t1 - t0, fromCache = None,
               error = Some (ErrorMessage e)\<rparr>)"
    by (simp add: updateSection_def)
next
  assume a: "isValidVector pos \<and> isValidVector dir \<and> realVector dir = Vector3_zero \<and>
    triangles model \<noteq> [] \<and>
    cache s (generateCacheKey (realVector pos) (realVector dir) model) = None"
  then have rz: "realVector dir = \<lparr>x = 0, y = 0, z = 0\<rparr>"
    by (simp add: Vector3_zero_def)
  have z: "fromPointAndNormal (realVector pos) (realVector dir) = Inl ZeroNormal"
    unfolding rz by (rule fromPointAndNormal_zero)
  from a show t: "updateSection_try s t0 t1 pos dir model =
      (s\<lparr>cacheMisses := cacheMisses s + 1\<rparr>, Inl ZeroNormal)"
    using updateSection_try_throw [OF _ _ _ _ z] by blast
  show "updateSection s t0 t1 pos dir model =
         (s\<lparr>cacheMisses := cacheMisses s + 1\<rparr>,
          \<lparr>lines = [], isValid = False, calculationTime = t1 - t0, fromCache = None,
            error = Some (ErrorMessage ZeroNormal)\<rparr>)"
    unfolding updateSection_def t by simp
qed

theorem updateSection_catches_witness:
  "updateSection newService 0 1 \<lparr>x = Finite 0, y = Finite 0, z = Finite 0\<rparr>
      \<lparr>x = Finite 0, y = Finite 0, z = Finite 0\<rparr>
      \<lparr>triangles = [[\<lparr>x = - 1, y = - 1, z = 0\<rparr>, \<lparr>x = 1, y = - 1, z = 0\<rparr>, \<lparr>x = 0, y = 1, z = 0\<rparr>]]\<rparr> =
    (newService\<lparr>cacheMisses := cacheMisses newService + 1\<rparr>,
     \<lparr>lines = [], isValid = False, calculationTime = 1 - 0, fromCache = None,
       error = Some (ErrorMessage ZeroNormal)\<rparr>)"
proof -
  let ?pos = "\<lparr>x = Finite 0, y = Finite 0, z = Finite 0\<rparr>"
  let ?model = "\<lparr>triangles = [[\<lparr>x = - 1, y = - 1, z = 0\<rparr>, \<lparr>x = 1, y = - 1, z = 0\<rparr>, \<lparr>x = 0, y = 1, z = (0::real)\<rparr>]]\<rparr>"
  have a: "isValidVector ?pos \<and> isValidVector ?pos \<and> realVector ?pos = Vector3_zero \<and>
    triangles ?model \<noteq> [] \<and>
    cache newService (generateCacheKey (realVector ?pos) (realVector ?pos) ?model) = None"
    by (simp add: isValidVector_def realVector_def Vector3_zero_def newService_def)
  from updateSection_catches [of newService 0 1 ?pos ?pos ?model, THEN conjunct2, rule_format, OF a]
  show ?thesis by blast
qed

text \<open>
  Claim C10.  When \<open>setCacheSizeLimit limit\<close> is called while the cache holds more than
  \<open>limit\<close> entries, the cache is emptied and the counters are reset: the statistics read
  right after it are all 0 and \<open>getLastResult\<close> returns nothing.
\<close>

theorem setCacheSizeLimit_resets:
  assumes "number_less limit (Finite (real (card (dom (cache s)))))"
  shows "getPerformanceStats (setCacheSizeLimit limit s) =
           \<lparr>stats_cacheHitRate = 0, stats_totalCalculations = 0, stats_cacheHits = 0,
            stats_cacheMisses = 0\<rparr> \<and>
         getLastResult (setCacheSizeLimit limit s) = None \<and>
         cache (setCacheSizeLimit limit s) = Map.empty"
  using assms
  by (simp add: setCacheSizeLimit_def clearCache_def getPerformanceStats_def getLastResult_def)

theorem setCacheSizeLimit_resets_witness:
  "getPerformanceStats (setCacheSizeLimit (Finite 0)
     \<lparr>cache = Map.empty(''k'' \<mapsto> \<lparr>lines = [[\<lparr>x = 0, y = 0, z = 0\<rparr>, \<lparr>x = 1, y = 0, z = 0\<rparr>]],
          isValid = True, calculationTime = 1, fromCache = None, error = None\<rparr>),
       lastResult = Some \<lparr>lines = [], isValid = False, calculationTime = 1, fromCache = None,
          error = None\<rparr>,
       cacheHits = 3, cacheMisses = 2, totalCalculations = 2\<rparr>) =
     \<lparr>stats_cacheHitRate = 0, stats_totalCalculations = 0, stats_cacheHits = 0,
      stats_cacheMisses = 0\<rparr> \<and>
   getLastResult (setCacheSizeLimit (Finite 0)
     \<lparr>cache = Map.empty(''k'' \<mapsto> \<lparr>lines = [[\<lparr>x = 0, y = 0, z = 0\<rparr>, \<lparr>x = 1, y = 0, z = 0\<rparr>]],
          isValid = True, calculationTime = 1, fromCache = None, error = None\<rparr>),
       lastResult = Some \<lparr>lines = [], isValid = False, calculationTime = 1, fromCache = None,
          error = None\<rparr>,
       cacheHits = 3, cacheMisses = 2, totalCalculations = 2\<rparr>) = None"
proof -
  have h: "number_less (Finite 0) (Finite (real (card (dom (cache
     \<lparr>cache = Map.empty(''k'' \<mapsto> \<lparr>lines = [[\<lparr>x = 0, y = 0, z = 0\<rparr>, \<lparr>x = 1, y = 0, z = (0::real)\<rparr>]],
          isValid = True, calculationTime = 1, fromCache = None, error = None\<rparr>),
       lastResult = Some \<lparr>lines = [], isValid = False, calculationTime = 1, fromCache = None,
          error = None\<rparr>,
       cacheHits = 3, cacheMisses = 2, totalCalculations = 2\<rparr>)))))"
    by simp
  from setCacheSizeLimit_resets [OF h] show ?thesis by blast
qed

section \<open>Claims about getVisualizationConfig\<close>








end
